theory Spec2Isabelle
  imports Complex_Main "HOL-Library.Word"
begin

unbundle bit_operations_syntax

section \<open>Python values used by \<^verbatim>\<open>ibis_protocol.py\<close>\<close>

text \<open>
  A Python \<^verbatim>\<open>bytes\<close>/\<^verbatim>\<open>bytearray\<close> is a list of 8-bit words. A Python \<^verbatim>\<open>str\<close> is a
  list of Unicode code points (natural numbers), because the special-character table
  works on code points beyond ASCII and \<^verbatim>\<open>len\<close> counts code points. Python integers are
  unbounded, hence \<open>int\<close>. Every exception the modelled code can raise is a value of
  \<open>error\<close>, returned as \<open>Inl\<close>.
\<close>

type_synonym byte = "8 word"
type_synonym ustr = "nat list"

datatype error = IndexError | ValueError | TypeError

datatype pyval = PInt int | PStr ustr

definition lit :: "string \<Rightarrow> ustr" where
  \<comment> \<open>an ASCII string literal of the source as code points\<close>
  "lit s = map of_char s"

definition then_do :: "error + 'a \<Rightarrow> ('a \<Rightarrow> error + 'b) \<Rightarrow> error + 'b" where
  \<comment> \<open>sequencing: an exception raised by the first computation skips the rest\<close>
  "then_do m f = (case m of Inl e \<Rightarrow> Inl e | Inr x \<Rightarrow> f x)"

definition py_getitem :: "'a list \<Rightarrow> int \<Rightarrow> error + 'a" where
  \<comment> \<open>\<^verbatim>\<open>s[i]\<close>: an index below zero counts from the end, out of range raises IndexError\<close>
  "py_getitem s i =
     (if 0 \<le> i \<and> i < int (length s) then Inr (s ! nat i)
      else if - int (length s) \<le> i \<and> i < 0 then Inr (s ! nat (i + int (length s)))
      else Inl IndexError)"

fun str_index_from :: "ustr \<Rightarrow> ustr \<Rightarrow> nat \<Rightarrow> error + nat" where
  "str_index_from [] sub i = (if sub = [] then Inr i else Inl ValueError)"
| "str_index_from (c # cs) sub i =
     (if take (length sub) (c # cs) = sub then Inr i else str_index_from cs sub (Suc i))"

definition str_index :: "ustr \<Rightarrow> ustr \<Rightarrow> error + nat" where
  \<comment> \<open>\<^verbatim>\<open>s.index(sub)\<close>: the lowest position where \<open>sub\<close> occurs in \<open>s\<close>, else ValueError\<close>
  "str_index s sub = str_index_from s sub 0"

fun digits10 :: "nat \<Rightarrow> ustr" where
  "digits10 n = (if n < 10 then [48 + n] else digits10 (n div 10) @ [48 + n mod 10])"

declare digits10.simps [simp del]

definition str_int :: "int \<Rightarrow> ustr" where
  \<comment> \<open>\<^verbatim>\<open>str(i)\<close> for an integer\<close>
  "str_int i = (if i < 0 then 45 # digits10 (nat (- i)) else digits10 (nat i))"

definition py_str :: "pyval \<Rightarrow> ustr" where
  \<comment> \<open>what the format field \<^verbatim>\<open>{}\<close> inserts\<close>
  "py_str v = (case v of PInt i \<Rightarrow> str_int i | PStr s \<Rightarrow> s)"

definition fmt_0d :: "nat \<Rightarrow> int \<Rightarrow> ustr" where
  \<comment> \<open>the format field \<^verbatim>\<open>{:0Wd}\<close>: decimal, zero-filled after the sign to width \<open>W\<close>\<close>
  "fmt_0d w i =
     (if i < 0 then 45 # replicate (w - 1 - length (digits10 (nat (- i)))) 48 @ digits10 (nat (- i))
      else replicate (w - length (digits10 (nat i))) 48 @ digits10 (nat i))"

definition fmt_rjust0 :: "nat \<Rightarrow> pyval \<Rightarrow> ustr" where
  \<comment> \<open>the format field \<^verbatim>\<open>{:0>W}\<close>: right-aligned, filled with the character 0\<close>
  "fmt_rjust0 w v = replicate (w - length (py_str v)) 48 @ py_str v"

definition ljust :: "ustr \<Rightarrow> nat \<Rightarrow> ustr" where
  \<comment> \<open>\<^verbatim>\<open>text.ljust(w)\<close> and the format field \<^verbatim>\<open>{: <W}\<close>: spaces appended up to width \<open>w\<close>\<close>
  "ljust text w = text @ replicate (w - length text) 32"

definition ceil_div :: "nat \<Rightarrow> nat \<Rightarrow> nat" where
  \<comment> \<open>\<^verbatim>\<open>math.ceil(n / d)\<close> for a length \<open>n\<close> and a literal \<open>d\<close> of 2, 4 or 16: the
      floating-point quotient is exact for every length a string can have\<close>
  "ceil_div n d = (n + d - 1) div d"

section \<open>VDV hex: \<^verbatim>\<open>IBISMaster.vdv_hex\<close>\<close>

definition vdvhex :: ustr where
  "vdvhex = lit ''0123456789:;<=>?''"

definition vdv_hex :: "pyval \<Rightarrow> error + pyval" where
  "vdv_hex v =
     (case v of
        PInt i \<Rightarrow> then_do (py_getitem vdvhex i) (\<lambda>c. Inr (PStr [c]))
      | PStr s \<Rightarrow> then_do (str_index vdvhex s) (\<lambda>k. Inr (PInt (int k))))"

section \<open>Special characters: \<^verbatim>\<open>IBISMaster.process_special_characters\<close>\<close>

definition replace_char :: "nat \<Rightarrow> nat \<Rightarrow> ustr \<Rightarrow> ustr" where
  \<comment> \<open>\<^verbatim>\<open>s.replace(old, new)\<close> where \<open>old\<close> and \<open>new\<close> are one character each\<close>
  "replace_char old new s = map (\<lambda>c. if c = old then new else c) s"

definition encode_ascii_replace :: "ustr \<Rightarrow> byte list" where
  \<comment> \<open>\<^verbatim>\<open>s.encode('ascii', errors = 'replace')\<close>: a question mark for each character above 127\<close>
  "encode_ascii_replace s = map (\<lambda>c. if c < 128 then of_nat c else 0x3F) s"

definition process_special_characters :: "ustr \<Rightarrow> byte list" where
  "process_special_characters telegram =
     (let telegram = replace_char 0xE4 123 telegram;
          telegram = replace_char 0xF6 124 telegram;
          telegram = replace_char 0xFC 125 telegram;
          telegram = replace_char 0xDF 126 telegram;
          telegram = replace_char 0xC4 91 telegram;
          telegram = replace_char 0xD6 92 telegram;
          telegram = replace_char 0xDC 93 telegram
      in encode_ascii_replace telegram)"

definition sanitize_char :: "nat \<Rightarrow> byte" where
  \<comment> \<open>the substitution table as the specification words it, one character at a time\<close>
  "sanitize_char c =
     (if c = 0xE4 then 0x7B else if c = 0xF6 then 0x7C else if c = 0xFC then 0x7D
      else if c = 0xDF then 0x7E else if c = 0xC4 then 0x5B else if c = 0xD6 then 0x5C
      else if c = 0xDC then 0x5D else if c < 128 then of_nat c else 0x3F)"

definition decode_latin1 :: "byte list \<Rightarrow> ustr" where
  \<comment> \<open>\<^verbatim>\<open>b.decode('latin1')\<close>: each byte is its own code point\<close>
  "decode_latin1 b = map unat b"

section \<open>Framing: \<^verbatim>\<open>IBISMaster.wrap_telegram\<close>\<close>

primrec xor_bytes :: "byte \<Rightarrow> byte list \<Rightarrow> byte" where
  \<comment> \<open>the loop \<^verbatim>\<open>for byte in telegram: checksum ^= byte\<close>\<close>
  "xor_bytes checksum [] = checksum"
| "xor_bytes checksum (b # bs) = xor_bytes (checksum XOR b) bs"

definition wrap_telegram :: "byte list \<Rightarrow> byte list" where
  "wrap_telegram telegram =
     (let telegram = telegram @ [0x0D];
          checksum = xor_bytes 0x7F telegram
      in telegram @ [checksum])"

section \<open>The serial device and \<^verbatim>\<open>IBISMaster.send_telegram\<close>\<close>

text \<open>
  The device is the state the master writes to and reads from: \<open>tx\<close> collects every
  byte written, \<open>rx\<close> holds the bytes that arrive before the read timeout expires. A read
  of \<open>n\<close> bytes returns at most \<open>n\<close> of them, and none when nothing arrived. Debug printing
  changes no value and is left out.
\<close>

record device =
  tx :: "byte list"
  rx :: "byte list"

definition device_write :: "byte list \<Rightarrow> device \<Rightarrow> device" where
  "device_write b dev = dev\<lparr>tx := tx dev @ b\<rparr>"

definition device_read :: "nat \<Rightarrow> device \<Rightarrow> byte list \<times> device" where
  "device_read n dev = (take n (rx dev), dev\<lparr>rx := drop n (rx dev)\<rparr>)"

datatype telegram = Str ustr | Bytes "byte list"

definition send_telegram :: "telegram \<Rightarrow> nat \<Rightarrow> device \<Rightarrow> ustr option \<times> device" where
  "send_telegram telegram reply_length dev =
     (let telegram = (case telegram of Str s \<Rightarrow> process_special_characters s | Bytes b \<Rightarrow> b);
          telegram = wrap_telegram telegram;
          dev = device_write telegram dev
      in if reply_length \<noteq> 0
         then (let (reply, dev) = device_read (reply_length + 2) dev;
                   reply = take (length reply - 2) reply
               in (Some (decode_latin1 reply), dev))
         else (None, dev))"

section \<open>Reply decoders\<close>

text \<open>
  A reply dictionary is an association list from field name to value. The argument of a
  decoder is what \<^verbatim>\<open>send_telegram\<close> returned: \<^verbatim>\<open>None\<close> or a string; \<^verbatim>\<open>not telegram\<close> holds
  for \<^verbatim>\<open>None\<close> and for the empty string.
\<close>

type_synonym reply = "(string \<times> pyval) list"

definition falsy :: "ustr option \<Rightarrow> bool" where
  "falsy telegram = (case telegram of None \<Rightarrow> True | Some t \<Rightarrow> t = [])"

definition dict_get :: "('k \<rightharpoonup> 'v) \<Rightarrow> 'k \<Rightarrow> 'v \<Rightarrow> 'v" where
  \<comment> \<open>\<^verbatim>\<open>d.get(k, dflt)\<close>\<close>
  "dict_get d k dflt = (case d k of None \<Rightarrow> dflt | Some v \<Rightarrow> v)"

definition DS120_statuses :: "ustr \<rightharpoonup> ustr" where
  "DS120_statuses = map_of
     [(lit ''0'', lit ''ok''),
      (lit ''1'', lit ''displaying''),
      (lit ''2'', lit ''searching''),
      (lit ''3'', lit ''error''),
      (lit ''6'', lit ''input_implausible'')]"

definition parse_DS120 :: "ustr option \<Rightarrow> error + reply option" where
  "parse_DS120 telegram =
     (if falsy telegram then Inr None
      else then_do (py_getitem (the telegram) 1) (\<lambda>status.
        Inr (Some [(''status'', PStr (dict_get DS120_statuses [status] [status]))])))"

definition parse_DS1201 :: "ustr option \<Rightarrow> error + reply option" where
  "parse_DS1201 telegram =
     (if falsy telegram then Inr None
      else Inr (Some [(''version'', PStr (drop 2 (the telegram)))]))"

definition DS160_statuses :: "ustr \<rightharpoonup> ustr" where
  "DS160_statuses = map_of
     [(lit ''0'', lit ''ok_no_information''),
      (lit ''1'', lit ''information_read''),
      (lit ''2'', lit ''new_information'')]"

definition parse_DS160 :: "ustr option \<Rightarrow> error + reply option" where
  "parse_DS160 telegram =
     (if falsy telegram then Inr None
      else then_do (py_getitem (the telegram) 2) (\<lambda>status.
        Inr (Some [(''status'', PStr (dict_get DS160_statuses [status] [status]))])))"

text \<open>
  \<^verbatim>\<open>int(s)\<close> for a string of code points below 256, which is every string that
  \<^verbatim>\<open>decode('latin1')\<close> returns: surrounding whitespace is dropped, one sign may lead, and
  the rest is decimal digits, with single underscores allowed between two digits. More
  than 4300 digits are refused, the default limit of the interpreter. Decimal digits and
  whitespace of other scripts, which \<^verbatim>\<open>int\<close> also accepts, lie above 255 and cannot
  occur in a decoded reply; the model covers no string that contains them.
\<close>

definition is_digit :: "nat \<Rightarrow> bool" where
  "is_digit c = (48 \<le> c \<and> c \<le> 57)"

definition is_int_space :: "nat \<Rightarrow> bool" where
  "is_int_space c = (c = 9 \<or> c = 10 \<or> c = 11 \<or> c = 12 \<or> c = 13 \<or> c = 32 \<or> c = 0x85 \<or> c = 0xA0)"

fun int_digits :: "ustr \<Rightarrow> int \<Rightarrow> error + int" where
  "int_digits [] acc = Inr acc"
| "int_digits (c # cs) acc =
     (if is_digit c then int_digits cs (acc * 10 + int (c - 48))
      else if c = 95 \<and> cs \<noteq> [] \<and> is_digit (hd cs) then int_digits cs acc
      else Inl ValueError)"

definition py_int :: "ustr \<Rightarrow> error + int" where
  "py_int s =
     (let t = rev (dropWhile is_int_space (rev (dropWhile is_int_space s)));
          negative = (t \<noteq> [] \<and> hd t = 45);
          body = (if t \<noteq> [] \<and> (hd t = 45 \<or> hd t = 43) then tl t else t)
      in if body = [] \<or> \<not> is_digit (hd body) then Inl ValueError
         else if 4300 < length (filter is_digit body) then Inl ValueError
         else then_do (int_digits body 0) (\<lambda>v. Inr (if negative then - v else v)))"

definition parse_DS1601 :: "ustr option \<Rightarrow> error + reply option" where
  "parse_DS1601 telegram =
     (if falsy telegram then Inr None
      else then_do (py_int (drop 2 (the telegram))) (\<lambda>version.
        Inr (Some [(''version'', PInt version)])))"

fun parse_DS161_loop :: "ustr \<Rightarrow> nat list \<Rightarrow> int \<Rightarrow> error + int" where
  \<comment> \<open>the loop \<^verbatim>\<open>for n in range(8)\<close> over the remaining values of \<open>n\<close>\<close>
  "parse_DS161_loop beacon_id_vdvhex [] beacon_id = Inr beacon_id"
| "parse_DS161_loop beacon_id_vdvhex (n # ns) beacon_id =
     then_do (py_getitem beacon_id_vdvhex (int n)) (\<lambda>char.
     then_do (vdv_hex (PStr [char])) (\<lambda>v.
       case v of
         PInt d \<Rightarrow> parse_DS161_loop beacon_id_vdvhex ns (beacon_id OR push_bit ((7 - n) * 4) d)
       | PStr s \<Rightarrow> Inl TypeError))"

definition parse_DS161 :: "ustr option \<Rightarrow> error + reply option" where
  "parse_DS161 telegram =
     (if falsy telegram then Inr None
      else then_do (parse_DS161_loop (drop 2 (the telegram)) [0..<8] 0) (\<lambda>beacon_id.
        Inr (Some [(''beacon_id'', PInt beacon_id)])))"

section \<open>Encoders of the telegram catalogue\<close>

text \<open>
  Each sending method evaluates a format expression, which may raise, and passes the
  resulting string to \<^verbatim>\<open>send_telegram\<close>. The format expression is the \<open>_body\<close> function,
  the method itself threads the device. Texts and directions are strings, addresses,
  identifiers and counts are integers.
\<close>

definition DS009_body :: "ustr \<Rightarrow> ustr" where
  \<comment> \<open>\<^verbatim>\<open>self._tg("v{: <16}")\<close>\<close>
  "DS009_body text = lit ''v'' @ ljust text 16"

definition DS009a_body :: "ustr \<Rightarrow> ustr" where
  \<comment> \<open>\<^verbatim>\<open>self._tg("v{: <20}")\<close>\<close>
  "DS009a_body text = lit ''v'' @ ljust text 20"

definition DS009b_body :: "ustr \<Rightarrow> ustr" where
  \<comment> \<open>\<^verbatim>\<open>self._tg("v{: <24}")\<close>\<close>
  "DS009b_body text = lit ''v'' @ ljust text 24"

definition DS003a_body :: "ustr \<Rightarrow> error + ustr" where
  "DS003a_body text =
     (let num_blocks = ceil_div (length text) 16
      in then_do (vdv_hex (PInt (int num_blocks))) (\<lambda>b.
           Inr (lit ''zA'' @ py_str b @ ljust text (num_blocks * 16))))"

definition DS003c_body :: "ustr \<Rightarrow> error + ustr" where
  "DS003c_body text =
     (let num_blocks = ceil_div (length text) 4
      in then_do (vdv_hex (PInt (int num_blocks))) (\<lambda>b.
           Inr (lit ''zI'' @ py_str b @ ljust text (num_blocks * 4))))"

definition DS004c_body :: "ustr \<Rightarrow> error + ustr" where
  "DS004c_body text =
     (let num_blocks = ceil_div (length text) 4
      in then_do (vdv_hex (PInt (int num_blocks))) (\<lambda>b.
           Inr (lit ''eT'' @ py_str b @ ljust text (num_blocks * 4))))"

definition DS021_body :: "int \<Rightarrow> ustr \<Rightarrow> error + ustr" where
  "DS021_body address text =
     (let num_blocks = ceil_div (length text) 16
      in then_do (vdv_hex (PInt address)) (\<lambda>a.
         then_do (vdv_hex (PInt (int num_blocks))) (\<lambda>b.
           Inr (lit ''aA'' @ py_str a @ py_str b @ ljust text (num_blocks * 16)))))"

definition DS021a_data :: "int \<Rightarrow> ustr \<Rightarrow> ustr \<Rightarrow> ustr" where
  \<comment> \<open>\<^verbatim>\<open>"\x03{:02d}\x04{}\x05{}".format(stop_id, stop_text, change_text)\<close>\<close>
  "DS021a_data stop_id stop_text change_text =
     [3] @ fmt_0d 2 stop_id @ [4] @ stop_text @ [5] @ change_text"

definition DS021a_body :: "int \<Rightarrow> int \<Rightarrow> ustr \<Rightarrow> ustr \<Rightarrow> error + ustr" where
  "DS021a_body address stop_id stop_text change_text =
     (let data = DS021a_data stop_id stop_text change_text;
          num_blocks = length data div 16;
          remainder = length data mod 16
      in then_do (vdv_hex (PInt address)) (\<lambda>a.
         then_do (vdv_hex (PInt (int num_blocks))) (\<lambda>b.
         then_do (vdv_hex (PInt (int remainder))) (\<lambda>r.
           Inr (lit ''aL'' @ py_str a @ py_str b @ py_str r @ data)))))"

definition send_only :: "error + ustr \<Rightarrow> device \<Rightarrow> error + (ustr option \<times> device)" where
  \<comment> \<open>\<^verbatim>\<open>return self.send_telegram(body)\<close> with the default \<^verbatim>\<open>reply_length = 0\<close>\<close>
  "send_only body dev = then_do body (\<lambda>b. Inr (send_telegram (Str b) 0 dev))"

definition DS009 :: "ustr \<Rightarrow> device \<Rightarrow> error + (ustr option \<times> device)" where
  "DS009 text dev = send_only (Inr (DS009_body text)) dev"

definition DS009a :: "ustr \<Rightarrow> device \<Rightarrow> error + (ustr option \<times> device)" where
  "DS009a text dev = send_only (Inr (DS009a_body text)) dev"

definition DS009b :: "ustr \<Rightarrow> device \<Rightarrow> error + (ustr option \<times> device)" where
  "DS009b text dev = send_only (Inr (DS009b_body text)) dev"

definition DS003a :: "ustr \<Rightarrow> device \<Rightarrow> error + (ustr option \<times> device)" where
  "DS003a text dev = send_only (DS003a_body text) dev"

definition DS003c :: "ustr \<Rightarrow> device \<Rightarrow> error + (ustr option \<times> device)" where
  "DS003c text dev = send_only (DS003c_body text) dev"

definition DS004c :: "ustr \<Rightarrow> device \<Rightarrow> error + (ustr option \<times> device)" where
  "DS004c text dev = send_only (DS004c_body text) dev"

definition DS021 :: "int \<Rightarrow> ustr \<Rightarrow> device \<Rightarrow> error + (ustr option \<times> device)" where
  "DS021 address text dev = send_only (DS021_body address text) dev"

definition DS021a :: "int \<Rightarrow> int \<Rightarrow> ustr \<Rightarrow> ustr \<Rightarrow> device \<Rightarrow> error + (ustr option \<times> device)" where
  "DS021a address stop_id stop_text change_text dev =
     send_only (DS021a_body address stop_id stop_text change_text) dev"

section \<open>Queries: an encoder, a read of the reply, a decoder\<close>

definition query ::
  "error + ustr \<Rightarrow> nat \<Rightarrow> (ustr option \<Rightarrow> error + reply option) \<Rightarrow> device
     \<Rightarrow> error + (reply option \<times> device)" where
  \<comment> \<open>\<^verbatim>\<open>return self.parse(self.send_telegram(body, reply_length = n))\<close>\<close>
  "query body reply_length parse dev =
     then_do body (\<lambda>b.
       let (telegram, dev) = send_telegram (Str b) reply_length dev
       in then_do (parse telegram) (\<lambda>r. Inr (r, dev)))"

definition DS020_body :: "int \<Rightarrow> error + ustr" where
  "DS020_body address = then_do (vdv_hex (PInt address)) (\<lambda>a. Inr (lit ''a'' @ py_str a))"

definition DS020 :: "int \<Rightarrow> device \<Rightarrow> error + (reply option \<times> device)" where
  "DS020 address dev = query (DS020_body address) 2 parse_DS120 dev"

definition DS201_body :: "int \<Rightarrow> error + ustr" where
  "DS201_body address = then_do (vdv_hex (PInt address)) (\<lambda>a. Inr (lit ''aV'' @ py_str a))"

definition DS201 :: "int \<Rightarrow> device \<Rightarrow> error + (reply option \<times> device)" where
  "DS201 address dev = query (DS201_body address) 8 parse_DS1201 dev"

definition DS060_body :: "ustr \<Rightarrow> ustr" where
  "DS060_body direction = lit ''o'' @ direction @ lit ''S''"

definition DS060 :: "ustr \<Rightarrow> device \<Rightarrow> error + (reply option \<times> device)" where
  "DS060 direction dev = query (Inr (DS060_body direction)) 3 parse_DS160 dev"

definition DS601_body :: "ustr \<Rightarrow> ustr" where
  "DS601_body direction = lit ''o'' @ direction @ lit ''V''"

definition DS601 :: "ustr \<Rightarrow> device \<Rightarrow> error + (reply option \<times> device)" where
  \<comment> \<open>the source passes the reply to \<^verbatim>\<open>parse_DS1201\<close> here\<close>
  "DS601 direction dev = query (Inr (DS601_body direction)) 18 parse_DS1201 dev"

definition DS061_body :: "ustr \<Rightarrow> ustr" where
  "DS061_body direction = lit ''o'' @ direction @ lit ''D''"

definition DS061 :: "ustr \<Rightarrow> device \<Rightarrow> error + (reply option \<times> device)" where
  "DS061 direction dev = query (Inr (DS061_body direction)) 10 parse_DS161 dev"

definition DS068_radio_telegram ::
  "int \<Rightarrow> int \<Rightarrow> int \<Rightarrow> pyval \<Rightarrow> int \<Rightarrow> int \<Rightarrow> int \<Rightarrow> int \<Rightarrow> int \<Rightarrow> error + ustr" where
  "DS068_radio_telegram channel radio_telegram_type delay reporting_point_id hand
       line_number course_number destination_id train_length =
     then_do (vdv_hex (PInt channel)) (\<lambda>c.
     then_do (vdv_hex (PInt 0)) (\<lambda>z.
     then_do (vdv_hex (PInt delay)) (\<lambda>d.
     then_do (vdv_hex (PInt 6)) (\<lambda>x.
     then_do (vdv_hex (PInt hand)) (\<lambda>h.
     then_do (vdv_hex (PInt train_length)) (\<lambda>t.
       Inr (py_str c @ py_str z @ fmt_0d 2 radio_telegram_type @ py_str d @ py_str x
            @ fmt_rjust0 4 reporting_point_id @ py_str h @ fmt_0d 3 line_number
            @ fmt_0d 2 course_number @ fmt_0d 3 destination_id @ py_str t)))))))"

definition DS068_body ::
  "int \<Rightarrow> int \<Rightarrow> int \<Rightarrow> pyval \<Rightarrow> int \<Rightarrow> int \<Rightarrow> int \<Rightarrow> int \<Rightarrow> int \<Rightarrow> error + ustr" where
  "DS068_body channel radio_telegram_type delay reporting_point_id hand
       line_number course_number destination_id train_length =
     then_do (DS068_radio_telegram channel radio_telegram_type delay reporting_point_id hand
                line_number course_number destination_id train_length) (\<lambda>radio_telegram.
     then_do (vdv_hex (PInt (int (ceil_div (length radio_telegram) 2)))) (\<lambda>n.
       Inr (lit ''oFM'' @ py_str n @ radio_telegram)))"

definition DS068 ::
  "int \<Rightarrow> int \<Rightarrow> int \<Rightarrow> pyval \<Rightarrow> int \<Rightarrow> int \<Rightarrow> int \<Rightarrow> int \<Rightarrow> int \<Rightarrow> device
     \<Rightarrow> error + (reply option \<times> device)" where
  "DS068 channel radio_telegram_type delay reporting_point_id hand
       line_number course_number destination_id train_length dev =
     query (DS068_body channel radio_telegram_type delay reporting_point_id hand
              line_number course_number destination_id train_length) 3 parse_DS160 dev"

section \<open>Properties of framing and of the VDV hex alphabet\<close>

lemma xor_bytes_foldl: "xor_bytes c bs = foldl (XOR) c bs"
  by (induction bs arbitrary: c) simp_all

text \<open>
  Claim C1. For every byte sequence \<open>B\<close>, \<^verbatim>\<open>wrap_telegram\<close> returns \<open>B\<close>, then the
  terminator 0x0D, then the checksum: 0x7F XOR-folded over the bytes of \<open>B\<close> and then the
  terminator. The result is two bytes longer than \<open>B\<close>, its second-to-last byte is 0x0D
  and its last byte is the checksum.
\<close>

theorem wrap_telegram_frame:
  "wrap_telegram B = B @ [0x0D] @ [foldl (XOR) 0x7F (B @ [0x0D])]
   \<and> length (wrap_telegram B) = length B + 2
   \<and> wrap_telegram B ! (length (wrap_telegram B) - 2) = 0x0D
   \<and> last (wrap_telegram B) = foldl (XOR) 0x7F (B @ [0x0D])"
  by (simp add: wrap_telegram_def Let_def xor_bytes_foldl nth_append)

lemma length_vdvhex: "length vdvhex = 16"
  by (simp add: vdvhex_def lit_def)

lemma distinct_vdvhex: "distinct vdvhex"
  by (simp add: vdvhex_def lit_def)

lemma str_index_from_absent: "c \<notin> set s \<Longrightarrow> str_index_from s [c] i = Inl ValueError"
  by (induction s arbitrary: i) auto

lemma str_index_from_nth:
  "distinct s \<Longrightarrow> k < length s \<Longrightarrow> str_index_from s [s ! k] i = Inr (i + k)"
proof (induction s arbitrary: k i)
  case Nil
  then show ?case by simp
next
  case (Cons c cs)
  show ?case
  proof (cases k)
    case 0
    then show ?thesis by simp
  next
    case (Suc j)
    with Cons.prems have "cs ! j \<noteq> c" "distinct cs" "j < length cs"
      by auto
    with Cons.IH [of j "Suc i"] Suc show ?thesis by simp
  qed
qed

lemma vdv_hex_encode:
  "0 \<le> n \<Longrightarrow> n \<le> 15 \<Longrightarrow> vdv_hex (PInt n) = Inr (PStr [vdvhex ! nat n])"
  by (simp add: vdv_hex_def py_getitem_def then_do_def length_vdvhex)

lemma vdv_hex_decode_nth:
  "k < 16 \<Longrightarrow> vdv_hex (PStr [vdvhex ! k]) = Inr (PInt (int k))"
  using str_index_from_nth [OF distinct_vdvhex, of k 0]
  by (simp add: vdv_hex_def str_index_def then_do_def length_vdvhex)

lemma vdv_hex_decode_absent:
  "c \<notin> set vdvhex \<Longrightarrow> vdv_hex (PStr [c]) = Inl ValueError"
  by (simp add: vdv_hex_def str_index_def then_do_def str_index_from_absent)

text \<open>
  Claim C2. For every \<open>n\<close> from 0 to 15, \<^verbatim>\<open>vdv_hex\<close> encodes \<open>n\<close> as the character at
  position \<open>n\<close> of the alphabet \<^verbatim>\<open>0123456789:;<=>?\<close>, and decoding that character gives
  \<open>n\<close> back. Decoding a character that is not in the alphabet raises ValueError.
\<close>

theorem vdv_hex_roundtrip:
  "(0 \<le> n \<and> n \<le> 15 \<longrightarrow>
      vdv_hex (PInt n) = Inr (PStr [vdvhex ! nat n])
      \<and> vdvhex ! nat n \<in> set (lit ''0123456789:;<=>?'')
      \<and> then_do (vdv_hex (PInt n)) vdv_hex = Inr (PInt n))
   \<and> (c \<notin> set (lit ''0123456789:;<=>?'') \<longrightarrow> vdv_hex (PStr [c]) = Inl ValueError)"
proof (intro conjI impI)
  assume n: "0 \<le> n \<and> n \<le> 15"
  then show enc: "vdv_hex (PInt n) = Inr (PStr [vdvhex ! nat n])"
    by (simp add: vdv_hex_encode)
  from n have k: "nat n < 16" by linarith
  then have "vdvhex ! nat n \<in> set vdvhex"
    by (intro nth_mem) (simp add: length_vdvhex)
  then show "vdvhex ! nat n \<in> set (lit ''0123456789:;<=>?'')"
    by (simp only: vdvhex_def)
  from n k show "then_do (vdv_hex (PInt n)) vdv_hex = Inr (PInt n)"
    by (simp add: enc then_do_def vdv_hex_decode_nth)
next
  assume "c \<notin> set (lit ''0123456789:;<=>?'')"
  then show "vdv_hex (PStr [c]) = Inl ValueError"
    by (simp add: vdv_hex_decode_absent vdvhex_def)
qed

theorem vdv_hex_roundtrip_witness:
  "(0::int) \<le> 11 \<and> (11::int) \<le> 15
   \<and> vdv_hex (PInt 11) = Inr (PStr (lit '';''))
   \<and> then_do (vdv_hex (PInt 11)) vdv_hex = Inr (PInt 11)
   \<and> 65 \<notin> set (lit ''0123456789:;<=>?'')
   \<and> vdv_hex (PStr (lit ''A'')) = Inl ValueError"
  using vdv_hex_roundtrip [of 11 65]
  by (simp add: vdv_hex_def py_getitem_def str_index_def then_do_def vdvhex_def lit_def)

text \<open>
  Claim C10. For every integer \<open>v\<close> from -16 to -1, encoding \<open>v\<close> does not fail: it
  gives the alphabet character at position \<open>v + 16\<close>, the same as encoding \<open>v + 16\<close>. So
  -1 and 15 both encode as the question mark, the encoder is not injective on the
  integers it accepts, and it raises IndexError exactly for \<open>v \<ge> 16\<close> and \<open>v \<le> -17\<close>.
\<close>

theorem vdv_hex_negative_index:
  "(- 16 \<le> v \<and> v \<le> - 1 \<longrightarrow>
      vdv_hex (PInt v) = Inr (PStr [vdvhex ! nat (v + 16)])
      \<and> vdv_hex (PInt v) = vdv_hex (PInt (v + 16)))
   \<and> vdv_hex (PInt (- 1)) = Inr (PStr (lit ''?''))
   \<and> vdv_hex (PInt 15) = Inr (PStr (lit ''?''))
   \<and> \<not> inj_on (\<lambda>i. vdv_hex (PInt i)) {- 16..15}
   \<and> ((\<exists>e. vdv_hex (PInt v) = Inl e) \<longleftrightarrow> 16 \<le> v \<or> v \<le> - 17)
   \<and> (16 \<le> v \<or> v \<le> - 17 \<longrightarrow> vdv_hex (PInt v) = Inl IndexError)"
proof -
  have neg: "vdv_hex (PInt v) = Inr (PStr [vdvhex ! nat (v + 16)])
             \<and> vdv_hex (PInt v) = vdv_hex (PInt (v + 16))" if "- 16 \<le> v \<and> v \<le> - 1"
    using that by (simp add: vdv_hex_def py_getitem_def then_do_def length_vdvhex)
  have m1: "vdv_hex (PInt (- 1)) = Inr (PStr (lit ''?''))"
    by (simp add: vdv_hex_def py_getitem_def then_do_def vdvhex_def lit_def)
  have p15: "vdv_hex (PInt 15) = Inr (PStr (lit ''?''))"
    by (simp add: vdv_hex_def py_getitem_def then_do_def vdvhex_def lit_def)
  have "(- 1::int) \<in> {- 16..15}" "(15::int) \<in> {- 16..15}" "(- 1::int) \<noteq> 15"
    by simp_all
  with m1 p15 have ninj: "\<not> inj_on (\<lambda>i. vdv_hex (PInt i)) {- 16..15}"
    unfolding inj_on_def by metis
  have fails: "(\<exists>e. vdv_hex (PInt v) = Inl e) \<longleftrightarrow> 16 \<le> v \<or> v \<le> - 17"
    by (auto simp add: vdv_hex_def py_getitem_def then_do_def length_vdvhex)
  have err: "vdv_hex (PInt v) = Inl IndexError" if "16 \<le> v \<or> v \<le> - 17"
    using that by (auto simp add: vdv_hex_def py_getitem_def then_do_def length_vdvhex)
  from neg m1 p15 ninj fails err show ?thesis by blast
qed

theorem vdv_hex_negative_index_witness:
  "- 16 \<le> (- 3::int) \<and> (- 3::int) \<le> - 1
   \<and> vdv_hex (PInt (- 3)) = Inr (PStr (lit ''=''))
   \<and> vdv_hex (PInt (- 3)) = vdv_hex (PInt 13)
   \<and> (16 \<le> (16::int) \<or> (16::int) \<le> - 17)
   \<and> vdv_hex (PInt 16) = Inl IndexError"
  using vdv_hex_negative_index [of "- 3"] vdv_hex_negative_index [of 16]
  by (simp add: vdv_hex_def py_getitem_def then_do_def vdvhex_def lit_def)

section \<open>Properties of the special-character substitution\<close>

lemma process_special_characters_map:
  "process_special_characters T = map sanitize_char T"
  by (induction T)
     (simp_all add: process_special_characters_def replace_char_def encode_ascii_replace_def
        sanitize_char_def Let_def)

lemma process_special_characters_ascii:
  "\<forall>c\<in>set T. c < 128 \<Longrightarrow> process_special_characters T = map of_nat T"
  by (fastforce simp add: process_special_characters_map sanitize_char_def)

lemma decode_latin1_ascii:
  "\<forall>c\<in>set T. c < 128 \<Longrightarrow> decode_latin1 (map of_nat T) = T"
  by (induction T) (simp_all add: decode_latin1_def unat_of_nat)

text \<open>
  Claim C6. Sanitizing a text keeps its length and treats each character on its own:
  0xE4 (a umlaut) becomes \<^verbatim>\<open>{\<close>, 0xF6 (o umlaut) \<^verbatim>\<open>|\<close>, 0xFC (u umlaut) \<^verbatim>\<open>}\<close>, 0xDF (sharp s)
  \<^verbatim>\<open>~\<close>, 0xC4 \<^verbatim>\<open>[\<close>, 0xD6 a backslash, 0xDC \<^verbatim>\<open>]\<close>; any other character below 128 is kept
  and any other character from 128 on becomes a question mark. On a text that is already
  ASCII the result is the text itself, so sanitizing it again changes nothing. The seven
  code points of the word Muenchen written with u umlaut give the bytes of \<^verbatim>\<open>M}nchen\<close>.
\<close>

theorem process_special_characters_table:
  "length (process_special_characters T) = length T
   \<and> (\<forall>i<length T. process_special_characters T ! i =
        (if T ! i = 0xE4 then 0x7B else if T ! i = 0xF6 then 0x7C
         else if T ! i = 0xFC then 0x7D else if T ! i = 0xDF then 0x7E
         else if T ! i = 0xC4 then 0x5B else if T ! i = 0xD6 then 0x5C
         else if T ! i = 0xDC then 0x5D
         else if T ! i < 128 then of_nat (T ! i) else 0x3F))
   \<and> process_special_characters T = map sanitize_char T
   \<and> ((\<forall>c\<in>set T. c < 128) \<longrightarrow>
        process_special_characters T = map of_nat T
        \<and> decode_latin1 (process_special_characters T) = T
        \<and> process_special_characters (decode_latin1 (process_special_characters T))
            = process_special_characters T)
   \<and> process_special_characters [77, 0xFC, 110, 99, 104, 101, 110]
        = map of_nat (lit ''M}nchen'')"
proof (intro conjI allI impI)
  show "length (process_special_characters T) = length T"
    by (simp add: process_special_characters_map)
  show "process_special_characters T = map sanitize_char T"
    by (rule process_special_characters_map)
  show "process_special_characters [77, 0xFC, 110, 99, 104, 101, 110]
          = map of_nat (lit ''M}nchen'')"
    by (simp add: process_special_characters_map sanitize_char_def lit_def)
next
  fix i assume "i < length T"
  then show "process_special_characters T ! i =
        (if T ! i = 0xE4 then 0x7B else if T ! i = 0xF6 then 0x7C
         else if T ! i = 0xFC then 0x7D else if T ! i = 0xDF then 0x7E
         else if T ! i = 0xC4 then 0x5B else if T ! i = 0xD6 then 0x5C
         else if T ! i = 0xDC then 0x5D
         else if T ! i < 128 then of_nat (T ! i) else 0x3F)"
    by (simp add: process_special_characters_map sanitize_char_def)
next
  assume a: "\<forall>c\<in>set T. c < 128"
  then show eq: "process_special_characters T = map of_nat T"
    by (rule process_special_characters_ascii)
  from a show dec: "decode_latin1 (process_special_characters T) = T"
    by (simp add: eq decode_latin1_ascii)
  show "process_special_characters (decode_latin1 (process_special_characters T))
            = process_special_characters T"
    by (simp add: dec)
qed

theorem process_special_characters_table_witness:
  "length (process_special_characters (lit ''Stop'')) = 4
   \<and> process_special_characters (lit ''Stop'') = [0x53, 0x74, 0x6F, 0x70]
   \<and> decode_latin1 (process_special_characters (lit ''Stop'')) = lit ''Stop''
   \<and> (1::nat) < length [77, 0xFC, 110, 99, 104, 101, 110::nat]
   \<and> process_special_characters [77, 0xFC, 110, 99, 104, 101, 110] ! 1 = 0x7D"
  using process_special_characters_table [of "lit ''Stop''"]
    process_special_characters_table [of "[77, 0xFC, 110, 99, 104, 101, 110]"]
  by (simp add: lit_def sanitize_char_def decode_latin1_def)

section \<open>Properties of the reply decoders\<close>

lemma py_getitem_nat: "k < length s \<Longrightarrow> py_getitem s (int k) = Inr (s ! k)"
  by (simp add: py_getitem_def)

lemma vdv_hex_int_ok:
  "- 16 \<le> v \<Longrightarrow> v \<le> 15 \<Longrightarrow> \<exists>c. vdv_hex (PInt v) = Inr (PStr [c])"
  by (simp add: vdv_hex_def py_getitem_def then_do_def length_vdvhex)

lemma DS120_statuses_char:
  "dict_get DS120_statuses [c] [c] =
     (if c = 48 then lit ''ok'' else if c = 49 then lit ''displaying''
      else if c = 50 then lit ''searching'' else if c = 51 then lit ''error''
      else if c = 54 then lit ''input_implausible'' else [c])"
  by (simp add: dict_get_def DS120_statuses_def lit_def)

text \<open>
  Claim C8. For every display-status reply that has a status character (the second
  character of the reply), \<^verbatim>\<open>parse_DS120\<close> maps that character through the table
  0 to ok, 1 to displaying, 2 to searching, 3 to error, 6 to input\_implausible, and
  returns any other character unchanged as a one-character string, without failing. The
  reply \<^verbatim>\<open>a2\<close> decodes to status searching, and so does the whole query \<^verbatim>\<open>DS020\<close> when the
  device answers with a first byte, the byte of the character 2 and two more bytes.
\<close>

theorem parse_DS120_status:
  "(2 \<le> length t \<longrightarrow>
      parse_DS120 (Some t) = Inr (Some [(''status'', PStr
        (if t ! 1 = of_char CHR ''0'' then lit ''ok''
         else if t ! 1 = of_char CHR ''1'' then lit ''displaying''
         else if t ! 1 = of_char CHR ''2'' then lit ''searching''
         else if t ! 1 = of_char CHR ''3'' then lit ''error''
         else if t ! 1 = of_char CHR ''6'' then lit ''input_implausible''
         else [t ! 1]))]))
   \<and> parse_DS120 (Some (lit ''a2'')) = Inr (Some [(''status'', PStr (lit ''searching''))])
   \<and> (- 16 \<le> address \<and> address \<le> 15 \<and> rx dev = a # 0x32 # x # y # rest \<longrightarrow>
        (\<exists>dev'. DS020 address dev = Inr (Some [(''status'', PStr (lit ''searching''))], dev')))"
proof (intro conjI impI)
  assume "2 \<le> length t"
  then have "t \<noteq> []" "py_getitem t 1 = Inr (t ! 1)"
    using py_getitem_nat [of 1 t] by auto
  then show "parse_DS120 (Some t) = Inr (Some [(''status'', PStr
        (if t ! 1 = of_char CHR ''0'' then lit ''ok''
         else if t ! 1 = of_char CHR ''1'' then lit ''displaying''
         else if t ! 1 = of_char CHR ''2'' then lit ''searching''
         else if t ! 1 = of_char CHR ''3'' then lit ''error''
         else if t ! 1 = of_char CHR ''6'' then lit ''input_implausible''
         else [t ! 1]))])"
    by (simp add: parse_DS120_def falsy_def then_do_def DS120_statuses_char)
next
  show "parse_DS120 (Some (lit ''a2'')) = Inr (Some [(''status'', PStr (lit ''searching''))])"
    by (simp add: parse_DS120_def falsy_def then_do_def py_getitem_def DS120_statuses_char lit_def)
next
  assume h: "- 16 \<le> address \<and> address \<le> 15 \<and> rx dev = a # 0x32 # x # y # rest"
  then obtain c where c: "vdv_hex (PInt address) = Inr (PStr [c])"
    using vdv_hex_int_ok [of address] by auto
  from h have "fst (send_telegram (Str (lit ''a'' @ [c])) 2 dev) = Some [unat a, 50]"
    by (simp add: send_telegram_def device_read_def device_write_def decode_latin1_def Let_def)
  then show "\<exists>dev'. DS020 address dev = Inr (Some [(''status'', PStr (lit ''searching''))], dev')"
    by (simp add: DS020_def DS020_body_def query_def c then_do_def py_str_def split_beta
          parse_DS120_def falsy_def py_getitem_def DS120_statuses_char)
qed

theorem parse_DS120_status_witness:
  "2 \<le> length (lit ''a7'')
   \<and> parse_DS120 (Some (lit ''a7'')) = Inr (Some [(''status'', PStr (lit ''7''))])
   \<and> - 16 \<le> (1::int) \<and> (1::int) \<le> 15
   \<and> rx \<lparr>tx = [], rx = [0x61, 0x32, 0x0D, 0x21]\<rparr> = [0x61, 0x32, 0x0D, 0x21]
   \<and> (\<exists>dev'. DS020 1 \<lparr>tx = [], rx = [0x61, 0x32, 0x0D, 0x21]\<rparr>
          = Inr (Some [(''status'', PStr (lit ''searching''))], dev'))"
  using parse_DS120_status [of "lit ''a7''" 1 "\<lparr>tx = [], rx = [0x61, 0x32, 0x0D, 0x21]\<rparr>" "0x61" "0x0D" "0x21" "[]"]
  by (simp add: lit_def)

lemma upt_8: "[0..<8] = [0, 1, 2, 3, 4, 5, 6, 7]"
  by (simp add: upt_rec)

lemma parse_DS161_loop_step:
  assumes "n < length s" and "s ! n = vdvhex ! d" and "d < 16"
  shows "parse_DS161_loop s (n # ns) acc
           = parse_DS161_loop s ns (acc OR push_bit ((7 - n) * 4) (int d))"
  using assms by (simp add: py_getitem_nat then_do_def vdv_hex_decode_nth)

lemma or_push_bit_low:
  fixes hi lo :: int
  assumes "0 \<le> lo" and "lo < 2 ^ n"
  shows "push_bit n hi OR lo = hi * 2 ^ n + lo"
proof -
  from assms have "take_bit n lo = lo"
    by (simp add: take_bit_int_eq_self)
  then have "push_bit n hi AND lo = push_bit n hi AND take_bit n lo"
    by simp
  also have "\<dots> = 0"
    by (rule bit_eqI) (auto simp add: bit_and_iff bit_push_bit_iff bit_take_bit_iff)
  finally have "push_bit n hi + lo = push_bit n hi OR lo"
    by (rule disjunctive_add_eq_or)
  then show ?thesis
    by (simp add: push_bit_eq_mult)
qed

lemma beacon_or_eq_sum:
  fixes d0 d1 d2 d3 d4 d5 d6 d7 :: nat
  assumes "d0 < 16" "d1 < 16" "d2 < 16" "d3 < 16" "d4 < 16" "d5 < 16" "d6 < 16" "d7 < 16"
  shows "push_bit 28 (int d0) OR push_bit 24 (int d1) OR push_bit 20 (int d2)
           OR push_bit 16 (int d3) OR push_bit 12 (int d4) OR push_bit 8 (int d5)
           OR push_bit 4 (int d6) OR push_bit 0 (int d7)
         = int d0 * 16 ^ 7 + int d1 * 16 ^ 6 + int d2 * 16 ^ 5 + int d3 * 16 ^ 4
           + int d4 * 16 ^ 3 + int d5 * 16 ^ 2 + int d6 * 16 + int d7"
proof -
  let ?s7 = "int d7"
  let ?s6 = "int d6 * 16 + ?s7"
  let ?s5 = "int d5 * 16 ^ 2 + ?s6"
  let ?s4 = "int d4 * 16 ^ 3 + ?s5"
  let ?s3 = "int d3 * 16 ^ 4 + ?s4"
  let ?s2 = "int d2 * 16 ^ 5 + ?s3"
  let ?s1 = "int d1 * 16 ^ 6 + ?s2"
  have b7: "0 \<le> ?s7 \<and> ?s7 < 2 ^ 4" using assms by simp
  have b6: "0 \<le> ?s6 \<and> ?s6 < 2 ^ 8" using assms by simp
  have b5: "0 \<le> ?s5 \<and> ?s5 < 2 ^ 12" using assms by simp
  have b4: "0 \<le> ?s4 \<and> ?s4 < 2 ^ 16" using assms by simp
  have b3: "0 \<le> ?s3 \<and> ?s3 < 2 ^ 20" using assms by simp
  have b2: "0 \<le> ?s2 \<and> ?s2 < 2 ^ 24" using assms by simp
  have b1: "0 \<le> ?s1 \<and> ?s1 < 2 ^ 28" using assms by simp
  have e6: "push_bit 4 (int d6) OR push_bit 0 (int d7) = ?s6"
    using or_push_bit_low [of ?s7 4 "int d6"] b7 by simp
  have e5: "push_bit 8 (int d5) OR ?s6 = ?s5"
    using or_push_bit_low [of ?s6 8 "int d5"] b6 by simp
  have e4: "push_bit 12 (int d4) OR ?s5 = ?s4"
    using or_push_bit_low [of ?s5 12 "int d4"] b5 by simp
  have e3: "push_bit 16 (int d3) OR ?s4 = ?s3"
    using or_push_bit_low [of ?s4 16 "int d3"] b4 by simp
  have e2: "push_bit 20 (int d2) OR ?s3 = ?s2"
    using or_push_bit_low [of ?s3 20 "int d2"] b3 by simp
  have e1: "push_bit 24 (int d1) OR ?s2 = ?s1"
    using or_push_bit_low [of ?s2 24 "int d1"] b2 by simp
  have e0: "push_bit 28 (int d0) OR ?s1 = int d0 * 16 ^ 7 + ?s1"
    using or_push_bit_low [of ?s1 28 "int d0"] b1 by simp
  show ?thesis
    by (simp only: e6 e5 e4 e3 e2 e1 e0)
qed


lemma all_less_8:
  "(\<forall>i<8. P i) \<longleftrightarrow> P (0::nat) \<and> P 1 \<and> P 2 \<and> P 3 \<and> P 4 \<and> P 5 \<and> P 6 \<and> P 7"
  by (auto simp add: eval_nat_numeral All_less_Suc)

lemma sum_less_8:
  fixes f :: "nat \<Rightarrow> int"
  shows "(\<Sum>i<8. f i) = f 0 + f 1 + f 2 + f 3 + f 4 + f 5 + f 6 + f 7"
  by (simp add: eval_nat_numeral)

text \<open>
  Claim C9. For every locating-device data reply whose eight characters after the first
  two are VDV hex characters, of the nibbles \<open>d 0\<close> to \<open>d 7\<close>, \<^verbatim>\<open>parse_DS161\<close> returns as
  beacon id the bitwise OR of nibble \<open>i\<close> shifted left by \<open>(7 - i) * 4\<close> bits. That value is
  the base-16 number with the nibbles as digits, most significant first, and it fits in
  32 bits.
\<close>

theorem parse_DS161_beacon_id:
  assumes "10 \<le> length t"
    and "\<forall>i<8. d i < 16 \<and> t ! (i + 2) = vdvhex ! d i"
  shows "\<exists>v. parse_DS161 (Some t) = Inr (Some [(''beacon_id'', PInt v)])
             \<and> v = (push_bit 28 (int (d 0)) OR push_bit 24 (int (d 1))
                    OR push_bit 20 (int (d 2)) OR push_bit 16 (int (d 3))
                    OR push_bit 12 (int (d 4)) OR push_bit 8 (int (d 5))
                    OR push_bit 4 (int (d 6)) OR push_bit 0 (int (d 7)))
             \<and> v = (\<Sum>i<8. int (d i) * 16 ^ (7 - i))
             \<and> 0 \<le> v \<and> v < 2 ^ 32"
proof -
  let ?s = "drop 2 t"
  let ?v = "push_bit 28 (int (d 0)) OR push_bit 24 (int (d 1))
              OR push_bit 20 (int (d 2)) OR push_bit 16 (int (d 3))
              OR push_bit 12 (int (d 4)) OR push_bit 8 (int (d 5))
              OR push_bit 4 (int (d 6)) OR push_bit 0 (int (d 7))"
  from assms(2) have dlt: "d 0 < 16" "d 1 < 16" "d 2 < 16" "d 3 < 16"
      "d 4 < 16" "d 5 < 16" "d 6 < 16" "d 7 < 16"
    by (simp_all add: all_less_8)
  have len: "8 \<le> length ?s" using assms(1) by simp
  have nth: "?s ! i = vdvhex ! d i" if "i < 8" for i
    using that assms by (simp add: add.commute)
  have step: "parse_DS161_loop ?s (i # ns) acc
                = parse_DS161_loop ?s ns (acc OR push_bit ((7 - i) * 4) (int (d i)))"
    if "i < 8" for i ns acc
  proof (rule parse_DS161_loop_step)
    show "i < length ?s" using that len by simp
    show "?s ! i = vdvhex ! d i" using that by (rule nth)
    show "d i < 16" using that assms(2) by simp
  qed
  have loop: "parse_DS161_loop ?s [0..<8] 0 = Inr ?v"
    by (simp add: upt_8 step or.assoc del: parse_DS161_loop.simps(2))
  have "t \<noteq> []" using assms(1) by auto
  with loop have res: "parse_DS161 (Some t) = Inr (Some [(''beacon_id'', PInt ?v)])"
    by (simp add: parse_DS161_def falsy_def then_do_def)
  have sum: "?v = (\<Sum>i<8. int (d i) * 16 ^ (7 - i))"
    by (simp only: beacon_or_eq_sum [OF dlt] sum_less_8) simp
  have "(\<Sum>i<8. int (d i) * 16 ^ (7 - i)) < 2 ^ 32"
    using dlt by (simp add: sum_less_8)
  moreover have "0 \<le> (\<Sum>i<8. int (d i) * 16 ^ (7 - i))"
    by (simp add: sum_nonneg)
  ultimately show ?thesis using res sum by simp
qed

theorem parse_DS161_beacon_id_witness:
  "10 \<le> length (lit ''oD12:;<=>?'')
   \<and> parse_DS161 (Some (lit ''oD12:;<=>?'')) = Inr (Some [(''beacon_id'', PInt 0x12ABCDEF)])"
proof -
  have len: "10 \<le> length (lit ''oD12:;<=>?'')"
    by (simp add: lit_def)
  have chars: "\<forall>i<8. [1, 2, 10, 11, 12, 13, 14, 15] ! i < (16::nat)
             \<and> lit ''oD12:;<=>?'' ! (i + 2) = vdvhex ! ([1, 2, 10, 11, 12, 13, 14, 15] ! i)"
    by (simp add: all_less_8 lit_def vdvhex_def)
  from parse_DS161_beacon_id [OF len chars] len show ?thesis
    by simp
qed

section \<open>Queries without a reply\<close>

lemma send_telegram_no_bytes:
  assumes "rx dev = []" and "n \<noteq> 0"
  shows "send_telegram (Str b) n dev
           = (Some [], device_write (wrap_telegram (process_special_characters b)) dev)"
  using assms
  by (simp add: send_telegram_def device_read_def device_write_def decode_latin1_def Let_def)

lemma query_no_bytes:
  assumes "rx dev = []" and "n \<noteq> 0" and "parse (Some []) = Inr None"
  shows "query body n parse dev
           = then_do body (\<lambda>b. Inr (None,
               device_write (wrap_telegram (process_special_characters b)) dev))"
  using assms by (cases body) (simp_all add: query_def then_do_def send_telegram_no_bytes)

lemma parse_empty:
  "parse_DS120 (Some []) = Inr None"
  "parse_DS1201 (Some []) = Inr None"
  "parse_DS160 (Some []) = Inr None"
  "parse_DS1601 (Some []) = Inr None"
  "parse_DS161 (Some []) = Inr None"
  by (simp_all add: parse_DS120_def parse_DS1201_def parse_DS160_def parse_DS1601_def
        parse_DS161_def falsy_def)

text \<open>
  Claim C5. When no byte arrives before the read timeout, each of the queries \<^verbatim>\<open>DS020\<close>,
  \<^verbatim>\<open>DS201\<close>, \<^verbatim>\<open>DS060\<close>, \<^verbatim>\<open>DS601\<close>, \<^verbatim>\<open>DS061\<close> and \<^verbatim>\<open>DS068\<close> returns \<^verbatim>\<open>None\<close>, the explicit
  no-reply value, after writing its framed request: no dictionary is built and the
  decoder raises nothing. The only exception a query can raise in that situation comes
  from encoding its own arguments, before anything is sent or read; an address from -16
  to 15 always encodes.
\<close>

theorem query_no_reply:
  assumes "rx dev = []"
  shows "DS020 address dev = then_do (DS020_body address) (\<lambda>b. Inr (None,
             device_write (wrap_telegram (process_special_characters b)) dev))
       \<and> DS201 address dev = then_do (DS201_body address) (\<lambda>b. Inr (None,
             device_write (wrap_telegram (process_special_characters b)) dev))
       \<and> DS060 direction dev = Inr (None,
             device_write (wrap_telegram (process_special_characters (DS060_body direction))) dev)
       \<and> DS601 direction dev = Inr (None,
             device_write (wrap_telegram (process_special_characters (DS601_body direction))) dev)
       \<and> DS061 direction dev = Inr (None,
             device_write (wrap_telegram (process_special_characters (DS061_body direction))) dev)
       \<and> DS068 channel radio_telegram_type delay reporting_point_id hand
             line_number course_number destination_id train_length dev
          = then_do (DS068_body channel radio_telegram_type delay reporting_point_id hand
                       line_number course_number destination_id train_length)
              (\<lambda>b. Inr (None, device_write (wrap_telegram (process_special_characters b)) dev))
       \<and> (- 16 \<le> address \<and> address \<le> 15 \<longrightarrow>
            (\<exists>dev'. DS020 address dev = Inr (None, dev'))
            \<and> (\<exists>dev'. DS201 address dev = Inr (None, dev')))"
proof -
  have q20: "DS020 address dev = then_do (DS020_body address) (\<lambda>b. Inr (None,
             device_write (wrap_telegram (process_special_characters b)) dev))"
    unfolding DS020_def by (rule query_no_bytes [OF assms]) (simp_all add: parse_empty)
  have q201: "DS201 address dev = then_do (DS201_body address) (\<lambda>b. Inr (None,
             device_write (wrap_telegram (process_special_characters b)) dev))"
    unfolding DS201_def by (rule query_no_bytes [OF assms]) (simp_all add: parse_empty)
  have q60: "DS060 direction dev = Inr (None,
             device_write (wrap_telegram (process_special_characters (DS060_body direction))) dev)"
    unfolding DS060_def using query_no_bytes [OF assms, of 3 parse_DS160 "Inr (DS060_body direction)"]
    by (simp add: parse_empty then_do_def)
  have q601: "DS601 direction dev = Inr (None,
             device_write (wrap_telegram (process_special_characters (DS601_body direction))) dev)"
    unfolding DS601_def using query_no_bytes [OF assms, of 18 parse_DS1201 "Inr (DS601_body direction)"]
    by (simp add: parse_empty then_do_def)
  have q61: "DS061 direction dev = Inr (None,
             device_write (wrap_telegram (process_special_characters (DS061_body direction))) dev)"
    unfolding DS061_def using query_no_bytes [OF assms, of 10 parse_DS161 "Inr (DS061_body direction)"]
    by (simp add: parse_empty then_do_def)
  have q68: "DS068 channel radio_telegram_type delay reporting_point_id hand
             line_number course_number destination_id train_length dev
          = then_do (DS068_body channel radio_telegram_type delay reporting_point_id hand
                       line_number course_number destination_id train_length)
              (\<lambda>b. Inr (None, device_write (wrap_telegram (process_special_characters b)) dev))"
    unfolding DS068_def by (rule query_no_bytes [OF assms]) (simp_all add: parse_empty)
  have ok: "(\<exists>dev'. DS020 address dev = Inr (None, dev'))
            \<and> (\<exists>dev'. DS201 address dev = Inr (None, dev'))"
    if "- 16 \<le> address \<and> address \<le> 15"
  proof -
    from that obtain c where "vdv_hex (PInt address) = Inr (PStr [c])"
      using vdv_hex_int_ok [of address] by auto
    then show ?thesis
      by (simp add: q20 q201 DS020_body_def DS201_body_def then_do_def)
  qed
  from q20 q201 q60 q601 q61 q68 ok show ?thesis by blast
qed

theorem query_no_reply_witness:
  "rx \<lparr>tx = [], rx = []\<rparr> = []
   \<and> DS020 1 \<lparr>tx = [], rx = []\<rparr> = Inr (None, \<lparr>tx = [0x61, 0x31, 0x0D, 0x22], rx = []\<rparr>)
   \<and> - 16 \<le> (1::int) \<and> (1::int) \<le> 15
   \<and> (\<exists>dev'. DS201 1 \<lparr>tx = [], rx = []\<rparr> = Inr (None, dev'))
   \<and> DS068_body 1 2 3 (PStr (lit ''12'')) 4 5 6 7 8 = Inr (lit ''oFM:10023600124005060078'')
   \<and> (\<exists>dev'. DS068 1 2 3 (PStr (lit ''12'')) 4 5 6 7 8 \<lparr>tx = [], rx = []\<rparr> = Inr (None, dev'))"
proof -
  let ?dev = "\<lparr>tx = [], rx = []\<rparr>"
  have rx: "rx ?dev = []" by simp
  note q = query_no_reply [OF rx, of 1 "[]" 1 2 3 "PStr (lit ''12'')" 4 5 6 7 8]
  have b20: "DS020_body 1 = Inr (lit ''a1'')"
    by (simp add: DS020_body_def vdv_hex_def py_getitem_def then_do_def vdvhex_def lit_def
          py_str_def)
  have w20: "device_write (wrap_telegram (process_special_characters (lit ''a1''))) ?dev
               = \<lparr>tx = [0x61, 0x31, 0x0D, 0x22], rx = []\<rparr>"
    by (simp add: device_write_def wrap_telegram_def process_special_characters_map
          sanitize_char_def lit_def)
  have b68: "DS068_body 1 2 3 (PStr (lit ''12'')) 4 5 6 7 8
               = Inr (lit ''oFM:10023600124005060078'')"
    by code_simp
  from q have "DS020 1 ?dev = Inr (None, \<lparr>tx = [0x61, 0x31, 0x0D, 0x22], rx = []\<rparr>)"
    by (simp add: b20 w20 then_do_def)
  moreover have "\<exists>dev'. DS201 1 ?dev = Inr (None, dev')"
  proof -
    from q have "- 16 \<le> (1::int) \<and> (1::int) \<le> 15 \<longrightarrow>
        (\<exists>dev'. DS020 1 ?dev = Inr (None, dev')) \<and> (\<exists>dev'. DS201 1 ?dev = Inr (None, dev'))"
      by blast
    then show ?thesis by simp
  qed
  moreover from q have "\<exists>dev'. DS068 1 2 3 (PStr (lit ''12'')) 4 5 6 7 8 ?dev = Inr (None, dev')"
    by (simp add: b68 then_do_def)
  ultimately show ?thesis using b68 by simp
qed

section \<open>Block texts\<close>

lemma vdv_hex_nat:
  "k \<le> 15 \<Longrightarrow> vdv_hex (PInt (int k)) = Inr (PStr [vdvhex ! k])"
  using vdv_hex_encode [of "int k"] by simp

lemma vdv_hex_too_big:
  "16 \<le> k \<Longrightarrow> vdv_hex (PInt (int k)) = Inl IndexError"
  by (simp add: vdv_hex_def py_getitem_def then_do_def length_vdvhex)

lemma ceil_div_bounds:
  assumes "0 < d"
  shows "n \<le> ceil_div n d * d" and "ceil_div n d * d < n + d"
proof -
  let ?m = "n + d - 1"
  have eq: "?m div d * d + ?m mod d = ?m" by simp
  have "?m mod d < d" using assms by simp
  with eq assms show "n \<le> ceil_div n d * d" and "ceil_div n d * d < n + d"
    unfolding ceil_div_def by linarith+
qed

lemma ceil_div_ceiling:
  assumes "0 < d"
  shows "int (ceil_div n d) = \<lceil>real n / real d\<rceil>"
proof -
  from ceil_div_bounds [OF assms, of n]
  have "real n \<le> real (ceil_div n d * d)" and "real (ceil_div n d * d) < real (n + d)"
    by (simp_all only: of_nat_le_iff of_nat_less_iff)
  with assms have "real n / real d \<le> real (ceil_div n d)"
    and "real (ceil_div n d) - 1 < real n / real d"
    by (simp_all add: field_simps)
  then show ?thesis
    by (intro ceiling_unique [symmetric]) simp_all
qed

lemma ljust_blocks:
  assumes "0 < d"
  shows "ljust T (ceil_div (length T) d * d)
           = T @ replicate (ceil_div (length T) d * d - length T) 32"
    and "length (ljust T (ceil_div (length T) d * d)) = ceil_div (length T) d * d"
  using ceil_div_bounds(1) [OF assms, of "length T"] by (simp_all add: ljust_def)


lemma block_body_ok:
  assumes "0 < d" and "ceil_div (length T) d \<le> 15"
  shows "then_do (vdv_hex (PInt (int (ceil_div (length T) d))))
           (\<lambda>b. Inr (pre @ py_str b @ ljust T (ceil_div (length T) d * d)))
         = Inr (pre @ [vdvhex ! ceil_div (length T) d] @ T
                 @ replicate (ceil_div (length T) d * d - length T) 32)"
  using assms by (simp add: vdv_hex_nat then_do_def py_str_def ljust_blocks)

lemma block_body_fail:
  assumes "15 < ceil_div (length T) d"
  shows "then_do (vdv_hex (PInt (int (ceil_div (length T) d)))) f = Inl IndexError"
  using assms by (simp add: vdv_hex_too_big then_do_def)

text \<open>
  Claim C3, amended. The block-text encoders of the source use the block sizes 16
  (\<^verbatim>\<open>DS003a\<close>, \<^verbatim>\<open>DS021\<close>) and 4 (\<^verbatim>\<open>DS003c\<close>, \<^verbatim>\<open>DS004c\<close>). For every text \<open>T\<close> of at most 15
  blocks, the body is the command prefix (and, for \<^verbatim>\<open>DS021\<close> with an address from 0 to 15,
  the address character), then the VDV hex character of the block count
  \<open>ceil (len T / S)\<close>, then \<open>T\<close> padded with trailing spaces to exactly
  \<open>ceil (len T / S) * S\<close> characters. A text of more than 15 blocks raises IndexError and
  produces no body, for \<^verbatim>\<open>DS021\<close> whatever the address. The texts of width 20 and 24
  (\<^verbatim>\<open>DS009a\<close>, \<^verbatim>\<open>DS009b\<close>) carry no block count: they are padded with spaces to at least
  that width. The destination text \<^verbatim>\<open>Stop\<close> gives \<^verbatim>\<open>zA\<close>, \<^verbatim>\<open>1\<close>, \<^verbatim>\<open>Stop\<close> and 12 spaces.
\<close>

theorem block_text_bodies:
  "(ceil_div (length T) 16 \<le> 15 \<longrightarrow>
      DS003a_body T = Inr (lit ''zA'' @ [vdvhex ! ceil_div (length T) 16] @ T
                            @ replicate (ceil_div (length T) 16 * 16 - length T) 32)
      \<and> (0 \<le> address \<and> address \<le> 15 \<longrightarrow>
           DS021_body address T
             = Inr (lit ''aA'' @ [vdvhex ! nat address] @ [vdvhex ! ceil_div (length T) 16] @ T
                     @ replicate (ceil_div (length T) 16 * 16 - length T) 32)))
   \<and> (ceil_div (length T) 4 \<le> 15 \<longrightarrow>
        DS003c_body T = Inr (lit ''zI'' @ [vdvhex ! ceil_div (length T) 4] @ T
                              @ replicate (ceil_div (length T) 4 * 4 - length T) 32)
        \<and> DS004c_body T = Inr (lit ''eT'' @ [vdvhex ! ceil_div (length T) 4] @ T
                                @ replicate (ceil_div (length T) 4 * 4 - length T) 32))
   \<and> (0 < S \<longrightarrow>
        length (T @ replicate (ceil_div (length T) S * S - length T) 32)
          = ceil_div (length T) S * S
        \<and> int (ceil_div (length T) S) = \<lceil>real (length T) / real S\<rceil>)
   \<and> (15 < ceil_div (length T) 16 \<longrightarrow>
        DS003a_body T = Inl IndexError \<and> DS021_body address T = Inl IndexError)
   \<and> (15 < ceil_div (length T) 4 \<longrightarrow>
        DS003c_body T = Inl IndexError \<and> DS004c_body T = Inl IndexError)
   \<and> DS009a_body T = lit ''v'' @ T @ replicate (20 - length T) 32
   \<and> DS009b_body T = lit ''v'' @ T @ replicate (24 - length T) 32
   \<and> DS003a_body (lit ''Stop'') = Inr (lit ''zA'' @ lit ''1'' @ lit ''Stop'' @ replicate 12 32)"
proof (intro conjI impI)
  assume le: "ceil_div (length T) 16 \<le> 15"
  then show "DS003a_body T = Inr (lit ''zA'' @ [vdvhex ! ceil_div (length T) 16] @ T
                            @ replicate (ceil_div (length T) 16 * 16 - length T) 32)"
    unfolding DS003a_body_def Let_def by (intro block_body_ok) simp_all
  assume a: "0 \<le> address \<and> address \<le> 15"
  then have "vdv_hex (PInt address) = Inr (PStr [vdvhex ! nat address])"
    by (simp add: vdv_hex_encode)
  moreover from le have "vdv_hex (PInt (int (ceil_div (length T) 16)))
                            = Inr (PStr [vdvhex ! ceil_div (length T) 16])"
    by (rule vdv_hex_nat)
  ultimately show "DS021_body address T
             = Inr (lit ''aA'' @ [vdvhex ! nat address] @ [vdvhex ! ceil_div (length T) 16] @ T
                     @ replicate (ceil_div (length T) 16 * 16 - length T) 32)"
    by (simp add: DS021_body_def Let_def then_do_def py_str_def ljust_blocks)
next
  assume le: "ceil_div (length T) 4 \<le> 15"
  then show "DS003c_body T = Inr (lit ''zI'' @ [vdvhex ! ceil_div (length T) 4] @ T
                              @ replicate (ceil_div (length T) 4 * 4 - length T) 32)"
    unfolding DS003c_body_def Let_def by (intro block_body_ok) simp_all
  from le show "DS004c_body T = Inr (lit ''eT'' @ [vdvhex ! ceil_div (length T) 4] @ T
                                @ replicate (ceil_div (length T) 4 * 4 - length T) 32)"
    unfolding DS004c_body_def Let_def by (intro block_body_ok) simp_all
next
  assume S: "0 < S"
  then show "length (T @ replicate (ceil_div (length T) S * S - length T) 32)
          = ceil_div (length T) S * S"
    using ceil_div_bounds(1) [of S "length T"] by simp
  from S show "int (ceil_div (length T) S) = \<lceil>real (length T) / real S\<rceil>"
    by (rule ceil_div_ceiling)
next
  assume gt: "15 < ceil_div (length T) 16"
  then show "DS003a_body T = Inl IndexError"
    unfolding DS003a_body_def Let_def by (rule block_body_fail)
  have "vdv_hex (PInt address) = Inl IndexError \<or> (\<exists>c. vdv_hex (PInt address) = Inr c)"
    by (simp add: vdv_hex_def py_getitem_def then_do_def)
  with gt show "DS021_body address T = Inl IndexError"
    by (auto simp add: DS021_body_def Let_def then_do_def vdv_hex_too_big)
next
  assume gt: "15 < ceil_div (length T) 4"
  then show "DS003c_body T = Inl IndexError"
    unfolding DS003c_body_def Let_def by (rule block_body_fail)
  from gt show "DS004c_body T = Inl IndexError"
    unfolding DS004c_body_def Let_def by (rule block_body_fail)
next
  show "DS009a_body T = lit ''v'' @ T @ replicate (20 - length T) 32"
    by (simp add: DS009a_body_def ljust_def)
  show "DS009b_body T = lit ''v'' @ T @ replicate (24 - length T) 32"
    by (simp add: DS009b_body_def ljust_def)
  show "DS003a_body (lit ''Stop'') = Inr (lit ''zA'' @ lit ''1'' @ lit ''Stop'' @ replicate 12 32)"
    by code_simp
qed

theorem block_text_bodies_witness:
  "ceil_div (length (lit ''Hauptbahnhof Nord'')) 16 \<le> 15
   \<and> DS003a_body (lit ''Hauptbahnhof Nord'')
       = Inr (lit ''zA2Hauptbahnhof Nord'' @ replicate 15 32)
   \<and> ceil_div (length (lit ''Hauptbahnhof Nord'')) 4 \<le> 15
   \<and> DS003c_body (lit ''Hauptbahnhof Nord'')
       = Inr (lit ''zI5Hauptbahnhof Nord'' @ replicate 3 32)
   \<and> (0::int) \<le> 3 \<and> (3::int) \<le> 15
   \<and> DS021_body 3 (lit ''Hauptbahnhof Nord'')
       = Inr (lit ''aA32Hauptbahnhof Nord'' @ replicate 15 32)
   \<and> 15 < ceil_div (length (replicate 256 (88::nat))) 16
   \<and> DS003a_body (replicate 256 88) = Inl IndexError
   \<and> 15 < ceil_div (length (replicate 61 (88::nat))) 4
   \<and> DS003c_body (replicate 61 88) = Inl IndexError"
  using block_text_bodies [of "lit ''Hauptbahnhof Nord''" 3 16]
    block_text_bodies [of "replicate 256 88" 3 16]
    block_text_bodies [of "replicate 61 88" 3 4]
  by (simp add: lit_def ceil_div_def vdvhex_def)

text \<open>
  Claim C3 as stated fails: a destination text of 256 characters has 16 blocks and
  \<^verbatim>\<open>DS003a\<close> raises IndexError instead of producing a body; and a text of 21 characters
  at width 20 is sent by \<^verbatim>\<open>DS009a\<close> as it is, with no block count and no padding to 40.
\<close>

theorem block_text_every_text_counterexample:
  "DS003a_body (replicate 256 88) = Inl IndexError
   \<and> DS009a_body (replicate 21 88) = lit ''v'' @ replicate 21 88"
  by (simp add: DS003a_body_def DS009a_body_def ceil_div_def vdv_hex_def py_getitem_def
        then_do_def length_vdvhex ljust_def Let_def)

section \<open>Line progress texts\<close>

lemma fmt_0d_two_digits:
  assumes "0 \<le> i" and "i \<le> 99"
  shows "fmt_0d 2 i = [48 + nat i div 10, 48 + nat i mod 10]"
proof (cases "nat i < 10")
  case True
  then have "digits10 (nat i) = [48 + nat i]"
    by (simp add: digits10.simps)
  with assms True show ?thesis
    by (simp add: fmt_0d_def numeral_2_eq_2)
next
  case False
  with assms have "nat i div 10 < 10" by linarith
  then have "digits10 (nat i div 10) = [48 + nat i div 10]"
    by (simp add: digits10.simps)
  with False have "digits10 (nat i) = [48 + nat i div 10, 48 + nat i mod 10]"
    by (subst digits10.simps) simp
  with assms show ?thesis
    by (simp add: fmt_0d_def)
qed

lemma length_digits10_ge_3: "100 \<le> n \<Longrightarrow> 3 \<le> length (digits10 n)"
proof -
  assume n: "100 \<le> n"
  then have "\<not> n < 10" "\<not> n div 10 < 10" by linarith+
  then have "digits10 n = digits10 (n div 10 div 10) @ [48 + n div 10 mod 10] @ [48 + n mod 10]"
    by (subst digits10.simps, simp, subst digits10.simps, simp)
  moreover have "1 \<le> length (digits10 (n div 10 div 10))"
    by (subst digits10.simps) simp
  ultimately show ?thesis by simp
qed

text \<open>
  Claim C7, amended. For an address from 0 to 15, a stop id from 0 to 99 and texts whose
  composite has at most 255 characters, \<^verbatim>\<open>DS021a\<close> builds the composite 0x03, the stop id
  as two decimal digits, 0x04, the stop text, 0x05, the change text, and its body is
  \<^verbatim>\<open>aL\<close>, the address character, the VDV hex characters of the quotient and of the
  remainder of the composite's length by 16, then the composite. A stop id of 100 or
  more is written with all its digits, three or more. A composite of 256 characters or
  more raises IndexError.
\<close>

theorem DS021a_composite:
  "(0 \<le> address \<and> address \<le> 15 \<and> 0 \<le> stop_id \<and> stop_id \<le> 99
      \<and> length stop_text + length change_text + 5 \<le> 255 \<longrightarrow>
      DS021a_data stop_id stop_text change_text
        = [3] @ [48 + nat stop_id div 10, 48 + nat stop_id mod 10] @ [4] @ stop_text
          @ [5] @ change_text
      \<and> DS021a_body address stop_id stop_text change_text
        = Inr (lit ''aL'' @ [vdvhex ! nat address]
               @ [vdvhex ! (length (DS021a_data stop_id stop_text change_text) div 16)]
               @ [vdvhex ! (length (DS021a_data stop_id stop_text change_text) mod 16)]
               @ DS021a_data stop_id stop_text change_text))
   \<and> (100 \<le> stop_id \<longrightarrow>
        DS021a_data stop_id stop_text change_text
          = [3] @ str_int stop_id @ [4] @ stop_text @ [5] @ change_text
        \<and> 3 \<le> length (str_int stop_id))
   \<and> (0 \<le> address \<and> address \<le> 15
        \<and> 256 \<le> length (DS021a_data stop_id stop_text change_text) \<longrightarrow>
        DS021a_body address stop_id stop_text change_text = Inl IndexError)"
proof (intro conjI impI)
  assume h: "0 \<le> address \<and> address \<le> 15 \<and> 0 \<le> stop_id \<and> stop_id \<le> 99
      \<and> length stop_text + length change_text + 5 \<le> 255"
  then show data: "DS021a_data stop_id stop_text change_text
        = [3] @ [48 + nat stop_id div 10, 48 + nat stop_id mod 10] @ [4] @ stop_text
          @ [5] @ change_text"
    by (simp add: DS021a_data_def fmt_0d_two_digits)
  let ?data = "DS021a_data stop_id stop_text change_text"
  from h data have len: "length ?data \<le> 255" by simp
  then have q: "length ?data div 16 \<le> 15" by linarith
  have r: "length ?data mod 16 \<le> 15" by simp
  from h have "vdv_hex (PInt address) = Inr (PStr [vdvhex ! nat address])"
    by (simp add: vdv_hex_encode)
  with vdv_hex_nat [OF q] vdv_hex_nat [OF r]
  show "DS021a_body address stop_id stop_text change_text
        = Inr (lit ''aL'' @ [vdvhex ! nat address]
               @ [vdvhex ! (length ?data div 16)] @ [vdvhex ! (length ?data mod 16)] @ ?data)"
    by (simp add: DS021a_body_def Let_def then_do_def py_str_def)
next
  assume big: "100 \<le> stop_id"
  then have l3: "3 \<le> length (digits10 (nat stop_id))"
    by (intro length_digits10_ge_3) linarith
  with big show "DS021a_data stop_id stop_text change_text
          = [3] @ str_int stop_id @ [4] @ stop_text @ [5] @ change_text"
    by (simp add: DS021a_data_def fmt_0d_def str_int_def)
  from big l3 show "3 \<le> length (str_int stop_id)"
    by (simp add: str_int_def)
next
  let ?data = "DS021a_data stop_id stop_text change_text"
  assume h: "0 \<le> address \<and> address \<le> 15 \<and> 256 \<le> length ?data"
  then have "16 \<le> length ?data div 16" by linarith
  then have "vdv_hex (PInt (int (length ?data div 16))) = Inl IndexError"
    by (rule vdv_hex_too_big)
  moreover from h have "vdv_hex (PInt address) = Inr (PStr [vdvhex ! nat address])"
    by (simp add: vdv_hex_encode)
  ultimately show "DS021a_body address stop_id stop_text change_text = Inl IndexError"
    by (simp add: DS021a_body_def Let_def then_do_def)
qed

theorem DS021a_composite_witness:
  "(0::int) \<le> 1 \<and> (1::int) \<le> 15 \<and> (0::int) \<le> 7 \<and> (7::int) \<le> 99
   \<and> length (lit ''Dom'') + length (lit ''U3 S1 Bus 42'') + 5 \<le> 255
   \<and> DS021a_body 1 7 (lit ''Dom'') (lit ''U3 S1 Bus 42'')
       = Inr (lit ''aL114'' @ [3] @ lit ''07'' @ [4] @ lit ''Dom'' @ [5] @ lit ''U3 S1 Bus 42'')
   \<and> (100::int) \<le> 123
   \<and> DS021a_data 123 (lit ''Dom'') [] = [3] @ lit ''123'' @ [4] @ lit ''Dom'' @ [5]
   \<and> 256 \<le> length (DS021a_data 5 (replicate 251 88) [])
   \<and> DS021a_body 1 5 (replicate 251 88) [] = Inl IndexError"
  using DS021a_composite [of 1 7 "lit ''Dom''" "lit ''U3 S1 Bus 42''"]
    DS021a_composite [of 1 123 "lit ''Dom''" "[]"]
    DS021a_composite [of 1 5 "replicate 251 88" "[]"]
  by (simp add: lit_def vdvhex_def DS021a_data_def fmt_0d_def str_int_def digits10.simps)

text \<open>
  Claim C7 as stated fails: the stop id 100 takes three digits in the composite, and a
  stop text of 251 characters makes a composite of 256 characters, whose block count 16
  has no VDV hex character, so that \<^verbatim>\<open>DS021a\<close> raises IndexError.
\<close>

theorem DS021a_every_input_counterexample:
  "DS021a_body 1 100 [] [] = Inr (lit ''aL106'' @ [3] @ lit ''100'' @ [4, 5])
   \<and> DS021a_body 1 5 (replicate 251 88) [] = Inl IndexError"
  by (simp add: DS021a_body_def DS021a_data_def fmt_0d_def digits10.simps vdv_hex_def
        py_getitem_def then_do_def py_str_def vdvhex_def lit_def Let_def)

section \<open>Version queries\<close>

text \<open>
  Claim C4 on the code. \<^verbatim>\<open>DS601\<close> documents its reply as DS1601 and the integer decoder
  \<^verbatim>\<open>parse_DS1601\<close> follows it in the source, yet \<^verbatim>\<open>DS601\<close> calls \<^verbatim>\<open>parse_DS1201\<close>. On a
  reply whose version field is sixteen digits, \<^verbatim>\<open>DS601\<close> returns the digits as a string,
  where \<^verbatim>\<open>parse_DS1601\<close> on the same reply returns them as an integer; \<^verbatim>\<open>DS201\<close> returns
  its version as a string as well, so the two version queries do not differ.
\<close>

theorem DS601_returns_raw_version:
  "DS601 (lit ''A'') \<lparr>tx = [], rx = map of_nat (lit ''oV1234567890123456'') @ [0x0D, 0x2A]\<rparr>
     = Inr (Some [(''version'', PStr (lit ''1234567890123456''))],
            \<lparr>tx = [0x6F, 0x41, 0x56, 0x0D, 0x0A], rx = []\<rparr>)
   \<and> parse_DS1601 (Some (lit ''oV1234567890123456''))
     = Inr (Some [(''version'', PInt 1234567890123456)])
   \<and> DS201 1 \<lparr>tx = [], rx = map of_nat (lit ''aVV1.2.3'') @ [0x0D, 0x2A]\<rparr>
     = Inr (Some [(''version'', PStr (lit ''V1.2.3''))],
            \<lparr>tx = [0x61, 0x56, 0x31, 0x0D, 0x74], rx = []\<rparr>)"
  by code_simp

end
